theory Spec2Isabelle
  imports Main
begin

section \<open>The country shape map renderer\<close>

text \<open>
  A shallow embedding of \<^verbatim>\<open>HTMLCountryRenderer\<close>
  (\<^verbatim>\<open>packages/malloy-render/src/html/country_shape_map.ts\<close>). Every \<^verbatim>\<open>throw\<close> of the
  source is an \<open>Inl\<close> result; \<^verbatim>\<open>undefined\<close> is \<open>None\<close>.
\<close>

subsection \<open>Errors\<close>

text \<open>
  \<open>Error msg\<close> is \<^verbatim>\<open>throw new Error(msg)\<close>. \<open>TypeError\<close> is the exception the
  JavaScript runtime raises when a property of \<^verbatim>\<open>undefined\<close> is read
  (\<^verbatim>\<open>colorField.name\<close> with no color field).
\<close>

datatype error = Error string | TypeError

subsection \<open>Fields, explores and data cells (\<^verbatim>\<open>@malloydata/malloy\<close>)\<close>

text \<open>
  The declarations of \<^verbatim>\<open>Field\<close>, \<^verbatim>\<open>Explore\<close> and \<^verbatim>\<open>DataColumn\<close> are imported by the
  source, which reads them only through the predicates and properties below.
  A field's kind is one value: the four kinds the source tests for, any other atomic
  kind (boolean, json, ...), and the non-atomic kinds (a nested query or record).
  \<open>fid\<close> stands for the identity of the field object, so that equality of two
  \<open>Field\<close> values is the source's \<^verbatim>\<open>===\<close>.
\<close>

datatype FieldKind = KString | KNumber | KDate | KTimestamp | KOtherAtomic | KNotAtomic

record Field =
  fid :: nat
  name :: string
  kind :: FieldKind

definition isAtomicField :: "Field \<Rightarrow> bool" where
  "isAtomicField f = (kind f \<noteq> KNotAtomic)"

definition isDate :: "Field \<Rightarrow> bool" where
  "isDate f = (kind f = KDate)"

definition isTimestamp :: "Field \<Rightarrow> bool" where
  "isTimestamp f = (kind f = KTimestamp)"

definition isStringField :: "Field \<Rightarrow> bool" where
  "isStringField f = (kind f = KString)"

definition isNumberField :: "Field \<Rightarrow> bool" where
  "isNumberField f = (kind f = KNumber)"

record Explore =
  intrinsicFields :: "Field list"

text \<open>
  A data cell. A row of a \<open>DataArray\<close> is read with \<^verbatim>\<open>row.cell(field)\<close>, by the
  field's name, so a row is a function from field names to cells. The number type
  \<open>'n\<close> is left open: the source only passes numbers on. \<open>DataOther\<close> is every cell
  that is neither a number, a string, null nor an array (a boolean, a date, a record).
  A cell's back-reference \<^verbatim>\<open>data.field\<close> and that field's \<^verbatim>\<open>parentExplore\<close> are passed
  to the functions below as arguments: the cells of the rows of an array belong to the
  fields of the array's explore.
\<close>

datatype 'n DataColumn =
    DataNumber 'n
  | DataString string
  | DataNull
  | DataArray Explore "(string \<Rightarrow> 'n DataColumn) list"
  | DataOther

type_synonym 'n DataRow = "string \<Rightarrow> 'n DataColumn"

fun isNumber :: "'n DataColumn \<Rightarrow> bool" where
  "isNumber (DataNumber n) = True"
| "isNumber _ = False"

fun isString :: "'n DataColumn \<Rightarrow> bool" where
  "isString (DataString s) = True"
| "isString _ = False"

fun isNull :: "'n DataColumn \<Rightarrow> bool" where
  "isNull DataNull = True"
| "isNull _ = False"

fun isArray :: "'n DataColumn \<Rightarrow> bool" where
  "isArray (DataArray e rows) = True"
| "isArray _ = False"

subsection \<open>The renderer's collaborators\<close>

text \<open>
  \<^verbatim>\<open>COUNTRY_CODES\<close> (\<^verbatim>\<open>./country_codes\<close>), \<^verbatim>\<open>world\<close> (world-atlas), \<^verbatim>\<open>getSize\<close> (the
  chart base class), \<^verbatim>\<open>formatTitle\<close> and \<^verbatim>\<open>getColorScale\<close> (./utils) are imported by
  the source; they are parameters here. \<open>COUNTRY_CODES R\<close> holds the table's own
  entries; how the source reads the table is \<open>propertyRead\<close> below. \<open>formatTitle\<close> is
  already applied to \<^verbatim>\<open>this.options\<close>. The three helpers are taken to return a
  value on every argument.
\<close>

datatype EncodingType = Ordinal | Quantitative | Nominal

record ('n, 'w, 'sz, 'sc) Renderer =
  COUNTRY_CODES :: "string \<Rightarrow> 'n option"
  world :: 'w
  getSize :: 'sz
  formatTitle :: "string \<Rightarrow> string"
  getColorScale :: "EncodingType option \<Rightarrow> bool \<Rightarrow> 'sc"

subsection \<open>Field roles\<close>

text \<open>\<^verbatim>\<open>explore.intrinsicFields[0]\<close> and \<^verbatim>\<open>[1]\<close>; out of range JavaScript gives
  \<^verbatim>\<open>undefined\<close>.\<close>

definition getRegionField :: "Explore \<Rightarrow> Field option" where
  "getRegionField explore =
     (case intrinsicFields explore of [] \<Rightarrow> None | f # _ \<Rightarrow> Some f)"

definition getColorField :: "Explore \<Rightarrow> Field option" where
  "getColorField explore =
     (case intrinsicFields explore of f0 # f1 # _ \<Rightarrow> Some f1 | _ \<Rightarrow> None)"

subsection \<open>getDataValue\<close>

text \<open>
  The result type \<^verbatim>\<open>string | number | undefined\<close>. The table is a plain object, and
  the source reads it with brackets: \<^verbatim>\<open>COUNTRY_CODES[data.value]\<close>. A bracket read
  gives the object's own entry under the key when there is one, otherwise the member
  of \<^verbatim>\<open>Object.prototype\<close> of that name when there is one, otherwise \<^verbatim>\<open>undefined\<close>.
  \<open>VInherited k\<close> is the member of \<^verbatim>\<open>Object.prototype\<close> named \<open>k\<close> (a function, or the
  prototype itself for \<^verbatim>\<open>__proto__\<close>): a value that is not \<^verbatim>\<open>undefined\<close>.
\<close>

datatype 'n Value = VNumber 'n | VString string | VInherited string

definition objectPrototypeKeys :: "string list" where
  "objectPrototypeKeys =
     [''constructor'', ''__defineGetter__'', ''__defineSetter__'', ''hasOwnProperty'',
      ''__lookupGetter__'', ''__lookupSetter__'', ''isPrototypeOf'', ''propertyIsEnumerable'',
      ''toString'', ''valueOf'', ''__proto__'', ''toLocaleString'']"

definition propertyRead :: "(string \<Rightarrow> 'n option) \<Rightarrow> string \<Rightarrow> 'n Value option" where
  "propertyRead codes key =
     (case codes key of
        Some ident \<Rightarrow> Some (VNumber ident)
      | None \<Rightarrow> if key \<in> set objectPrototypeKeys then Some (VInherited key) else None)"

fun getDataValue ::
  "(string \<Rightarrow> 'n option) \<Rightarrow> Explore \<Rightarrow> Field \<Rightarrow> 'n DataColumn \<Rightarrow> error + 'n Value option" where
  "getDataValue codes parentExplore field (DataNumber n) = Inr (Some (VNumber n))"
| "getDataValue codes parentExplore field (DataString s) =
     (if Some field = getRegionField parentExplore then
        (case propertyRead codes s of
           None \<Rightarrow> Inr None
         | Some ident \<Rightarrow> Inr (Some ident))
      else Inr (Some (VString s)))"
| "getDataValue codes parentExplore field DataNull = Inr None"
| "getDataValue codes parentExplore field _ = Inl (Error ''Invalid field type for shape map.'')"

subsection \<open>getDataType\<close>

definition getDataType :: "Explore \<Rightarrow> Field \<Rightarrow> error + EncodingType" where
  "getDataType parentExplore field =
     (if isAtomicField field then
        (if isDate field \<or> isTimestamp field then Inr Nominal
         else if isStringField field then
           (if Some field = getRegionField parentExplore then Inr Quantitative
            else Inr Nominal)
         else if isNumberField field then Inr Quantitative
         else Inl (Error ''Invalid field type for shape map.''))
      else Inl (Error ''Invalid field type for shape map.''))"

subsection \<open>mapData\<close>

text \<open>
  Modelled from the spec: \<^verbatim>\<open>HTMLChartRenderer.mapData\<close> (./chart), which
  \<^verbatim>\<open>getVegaLiteSpec\<close> calls, is not among the source files. The spec (4.4) gives it:
  for each source row, for each field, the field's cell goes through \<open>getDataValue\<close>
  and the result is stored under the field's name in the row's flat record; one
  record per source row, in order; a failure of \<open>getDataValue\<close> aborts the whole call.
  A mapped row is a map from field names to values: reading a name that is absent or
  was stored as \<^verbatim>\<open>undefined\<close> gives \<open>None\<close>.
\<close>

type_synonym 'n MappedRow = "string \<Rightarrow> 'n Value option"

fun mapFields ::
  "(string \<Rightarrow> 'n option) \<Rightarrow> Explore \<Rightarrow> Field list \<Rightarrow> 'n DataRow \<Rightarrow> 'n MappedRow
     \<Rightarrow> error + 'n MappedRow" where
  "mapFields codes explore [] row mappedRow = Inr mappedRow"
| "mapFields codes explore (field # rest) row mappedRow =
     (case getDataValue codes explore field (row (name field)) of
        Inl err \<Rightarrow> Inl err
      | Inr v \<Rightarrow> mapFields codes explore rest row (mappedRow(name field := v)))"

definition mapRow :: "(string \<Rightarrow> 'n option) \<Rightarrow> Explore \<Rightarrow> 'n DataRow \<Rightarrow> error + 'n MappedRow" where
  "mapRow codes explore row = mapFields codes explore (intrinsicFields explore) row Map.empty"

fun mapData ::
  "(string \<Rightarrow> 'n option) \<Rightarrow> Explore \<Rightarrow> 'n DataRow list \<Rightarrow> error + 'n MappedRow list" where
  "mapData codes explore [] = Inr []"
| "mapData codes explore (row # rows) =
     (case mapRow codes explore row of
        Inl err \<Rightarrow> Inl err
      | Inr mappedRow \<Rightarrow>
          (case mapData codes explore rows of
             Inl err \<Rightarrow> Inl err
           | Inr mappedRows \<Rightarrow> Inr (mappedRow # mappedRows)))"

subsection \<open>The Vega-Lite specification\<close>

text \<open>The object the source returns, with its literals. A mark is either the object
  \<^verbatim>\<open>{type, fill, stroke?}\<close> or the bare name \<^verbatim>\<open>'geoshape'\<close>.\<close>

datatype 'w LayerData =
    SphereData bool
  | TopoData 'w string string

datatype Mark = MarkDef string string "string option" | MarkName string

record 'w LookupTransform =
  lookup :: string
  from_data :: "'w LayerData"
  from_key :: string
  lookup_as :: string

record 'sc ColorDef =
  color_field :: string
  color_type :: "EncodingType option"
  axis_title :: string
  scale :: 'sc

record 'sc Encoding =
  shape_field :: string
  shape_type :: string
  color :: "'sc ColorDef"

datatype ('w, 'sc) Layer =
    DataLayer "'w LayerData" Mark
  | LookupLayer "'w LookupTransform list" Mark "'sc Encoding"

record ('n, 'w, 'sz, 'sc) TopLevelSpec =
  size :: 'sz
  data_values :: "'n MappedRow list"
  projection_type :: string
  layer :: "('w, 'sc) Layer list"

definition worldCountries :: "'w \<Rightarrow> 'w LayerData" where
  "worldCountries w = TopoData w ''topojson'' ''countries''"

definition sphereLayer :: "('w, 'sc) Layer" where
  "sphereLayer = DataLayer (SphereData True) (MarkDef ''geoshape'' ''aliceblue'' None)"

definition baseMapLayer :: "'w \<Rightarrow> ('w, 'sc) Layer" where
  "baseMapLayer w = DataLayer (worldCountries w) (MarkDef ''geoshape'' ''mintcream'' (Some ''black''))"

definition dataLayer :: "'w \<Rightarrow> string \<Rightarrow> 'sc ColorDef \<Rightarrow> ('w, 'sc) Layer" where
  "dataLayer w regionName colorDef =
     LookupLayer
       [\<lparr>lookup = regionName, from_data = worldCountries w, from_key = ''id'', lookup_as = ''geo''\<rparr>]
       (MarkName ''geoshape'')
       \<lparr>shape_field = ''geo'', shape_type = ''geojson'', color = colorDef\<rparr>"

subsection \<open>getVegaLiteSpec\<close>

text \<open>
  The statements of the source in their order. \<open>colorType\<close> is guarded
  (\<^verbatim>\<open>colorField ? ... : undefined\<close>); the next statement reads \<^verbatim>\<open>colorField.name\<close>
  unguarded, which raises \<open>TypeError\<close> when there is no second field. With a second
  field there is a first one; the \<open>None\<close> branch for \<open>regionField\<close> keeps the function
  total (\<^verbatim>\<open>regionField.name\<close> would raise as well).
\<close>

definition assemble ::
  "('n, 'w, 'sz, 'sc) Renderer \<Rightarrow> Explore \<Rightarrow> 'n DataRow list
     \<Rightarrow> error + ('n, 'w, 'sz, 'sc) TopLevelSpec" where
  "assemble R explore rows =
     (let regionField = getRegionField explore;
          colorField = getColorField explore
      in case (case colorField of
                 Some cf \<Rightarrow> (case getDataType explore cf of
                               Inl err \<Rightarrow> Inl err
                             | Inr t \<Rightarrow> Inr (Some t))
               | None \<Rightarrow> Inr None) of
           Inl err \<Rightarrow> Inl err
         | Inr colorType \<Rightarrow>
             (case colorField of
                None \<Rightarrow> Inl TypeError
              | Some cf \<Rightarrow>
                  (let colorDef = \<lparr>color_field = name cf, color_type = colorType,
                                   axis_title = formatTitle R (name cf),
                                   scale = getColorScale R colorType False\<rparr>
                   in case mapData (COUNTRY_CODES R) explore rows of
                        Inl err \<Rightarrow> Inl err
                      | Inr mappedRows \<Rightarrow>
                          (case regionField of
                             None \<Rightarrow> Inl TypeError
                           | Some rf \<Rightarrow>
                               (let mapped = filter (\<lambda>row. row (name rf) \<noteq> None) mappedRows
                                in Inr \<lparr>size = getSize R,
                                        data_values = mapped,
                                        projection_type = ''mercator'',
                                        layer = [sphereLayer,
                                                 baseMapLayer (world R),
                                                 dataLayer (world R) (name rf) colorDef]\<rparr>)))))"

fun getVegaLiteSpec ::
  "('n, 'w, 'sz, 'sc) Renderer \<Rightarrow> 'n DataColumn \<Rightarrow> error + ('n, 'w, 'sz, 'sc) TopLevelSpec" where
  "getVegaLiteSpec R DataNull = Inl (Error ''Expected struct value not to be null.'')"
| "getVegaLiteSpec R (DataArray explore rows) = assemble R explore rows"
| "getVegaLiteSpec R _ = Inl (Error ''Invalid data for shape map'')"

subsection \<open>Predicates on the input\<close>

text \<open>The cells \<open>getDataValue\<close> accepts: a number, a string or null.\<close>

definition scalar :: "'n DataColumn \<Rightarrow> bool" where
  "scalar c = (isNumber c \<or> isString c \<or> isNull c)"

text \<open>The field kinds \<open>getDataType\<close> classifies.\<close>

definition classifiable :: "Field \<Rightarrow> bool" where
  "classifiable f = (kind f = KString \<or> kind f = KNumber \<or> kind f = KDate \<or> kind f = KTimestamp)"

text \<open>
  The inputs on which no statement of \<open>getVegaLiteSpec\<close> raises: an array whose
  explore has at least two fields, the second of a kind \<open>getDataType\<close> classifies,
  and whose rows hold a scalar cell for every field.
\<close>

definition validInput :: "Explore \<Rightarrow> 'n DataRow list \<Rightarrow> bool" where
  "validInput explore rows =
     (case intrinsicFields explore of
        rf # cf # rest \<Rightarrow>
          classifiable cf \<and>
          list_all (\<lambda>row. list_all (\<lambda>f. scalar (row (name f))) (intrinsicFields explore)) rows
      | _ \<Rightarrow> False)"

text \<open>The cell of a row under the region field.\<close>

definition regionCell :: "Explore \<Rightarrow> 'n DataRow \<Rightarrow> 'n DataColumn option" where
  "regionCell explore row = map_option (\<lambda>rf. row (name rf)) (getRegionField explore)"

text \<open>The row's region cell is a string with no entry in the country code table.\<close>

definition unresolvedRegion :: "(string \<Rightarrow> 'n option) \<Rightarrow> Explore \<Rightarrow> 'n DataRow \<Rightarrow> bool" where
  "unresolvedRegion codes explore row =
     (case regionCell explore row of
        Some (DataString s) \<Rightarrow> codes s = None
      | _ \<Rightarrow> False)"

text \<open>The row's region cell is null.\<close>

definition nullRegion :: "Explore \<Rightarrow> 'n DataRow \<Rightarrow> bool" where
  "nullRegion explore row = (regionCell explore row = Some DataNull)"

text \<open>
  The row's region cell is a string with no entry in the table that names a member of
  \<^verbatim>\<open>Object.prototype\<close>: the bracket read of the table gives that member.
\<close>

definition inheritedRegion :: "(string \<Rightarrow> 'n option) \<Rightarrow> Explore \<Rightarrow> 'n DataRow \<Rightarrow> bool" where
  "inheritedRegion codes explore row =
     (case regionCell explore row of
        Some (DataString s) \<Rightarrow> codes s = None \<and> s \<in> set objectPrototypeKeys
      | _ \<Rightarrow> False)"

text \<open>The rows whose region value is absent after mapping: the region cell is a string
  that the table read gives nothing for, or it is null.\<close>

definition regionAbsent :: "(string \<Rightarrow> 'n option) \<Rightarrow> Explore \<Rightarrow> 'n DataRow \<Rightarrow> bool" where
  "regionAbsent codes explore row =
     (case regionCell explore row of
        Some (DataString s) \<Rightarrow> propertyRead codes s = None
      | Some DataNull \<Rightarrow> True
      | _ \<Rightarrow> False)"

text \<open>The mapped rows of the specification a call returns, and their number.\<close>

definition outputRows ::
  "('n, 'w, 'sz, 'sc) Renderer \<Rightarrow> 'n DataColumn \<Rightarrow> error + 'n MappedRow list" where
  "outputRows R d = (case getVegaLiteSpec R d of Inl err \<Rightarrow> Inl err | Inr s \<Rightarrow> Inr (data_values s))"

definition outputRowCount :: "('n, 'w, 'sz, 'sc) Renderer \<Rightarrow> 'n DataColumn \<Rightarrow> error + nat" where
  "outputRowCount R d = (case outputRows R d of Inl err \<Rightarrow> Inl err | Inr ms \<Rightarrow> Inr (length ms))"

text \<open>The failures of the spec's taxonomy (7): InvalidFieldType and InvalidInputShape.\<close>

definition invalidFieldType :: error where
  "invalidFieldType = Error ''Invalid field type for shape map.''"

definition invalidInputShape :: "error \<Rightarrow> bool" where
  "invalidInputShape err =
     (err = Error ''Expected struct value not to be null.'' \<or> err = Error ''Invalid data for shape map'')"

definition typedFailure :: "error \<Rightarrow> bool" where
  "typedFailure err = (err = invalidFieldType \<or> invalidInputShape err)"

subsection \<open>A result set: countries and a measure\<close>

definition countryField :: Field where
  "countryField = \<lparr>fid = 0, name = ''country'', kind = KString\<rparr>"

definition valueField :: Field where
  "valueField = \<lparr>fid = 1, name = ''value'', kind = KNumber\<rparr>"

definition countryExplore :: Explore where
  "countryExplore = \<lparr>intrinsicFields = [countryField, valueField]\<rparr>"

definition countryCodes :: "string \<Rightarrow> int option" where
  "countryCodes = [''France'' \<mapsto> 250, ''Japan'' \<mapsto> 392]"

definition countryRenderer :: "(int, unit, nat \<times> nat, EncodingType option) Renderer" where
  "countryRenderer =
     \<lparr>COUNTRY_CODES = countryCodes, world = (), getSize = (500, 350),
      formatTitle = (\<lambda>s. s), getColorScale = (\<lambda>t rect. t)\<rparr>"

definition countryRow :: "int DataColumn \<Rightarrow> int DataColumn \<Rightarrow> int DataRow" where
  "countryRow c v = (\<lambda>n. DataOther)(''country'' := c, ''value'' := v)"

definition scenarioRows :: "int DataRow list" where
  "scenarioRows =
     [countryRow (DataString ''France'') (DataNumber 10),
      countryRow (DataString ''Atlantis'') (DataNumber 5),
      countryRow (DataString ''Japan'') DataNull]"

section \<open>Properties\<close>

subsection \<open>Cells, rows and the assembly\<close>

lemma propertyRead_own: "codes s = Some i \<Longrightarrow> propertyRead codes s = Some (VNumber i)"
  by (simp add: propertyRead_def)

lemma propertyRead_None_iff:
  "(propertyRead codes s = None) = (codes s = None \<and> s \<notin> set objectPrototypeKeys)"
  by (simp add: propertyRead_def split: option.splits)

lemma regionAbsent_iff:
  "regionAbsent codes e row =
     ((unresolvedRegion codes e row \<and> \<not> inheritedRegion codes e row) \<or> nullRegion e row)"
  by (auto simp: regionAbsent_def unresolvedRegion_def inheritedRegion_def nullRegion_def
      propertyRead_None_iff split: option.splits DataColumn.splits)

lemma getDataValue_scalar: "scalar c \<Longrightarrow> \<exists>v. getDataValue codes e f c = Inr v"
  by (cases c) (auto simp: scalar_def split: option.splits)

lemma getDataValue_not_scalar:
  "\<not> scalar c \<Longrightarrow> getDataValue codes e f c = Inl (Error ''Invalid field type for shape map.'')"
  by (cases c) (auto simp: scalar_def)

lemma getDataValue_Inl:
  "getDataValue codes e f c = Inl err \<Longrightarrow> err = Error ''Invalid field type for shape map.'' \<and> \<not> scalar c"
  by (cases c) (auto simp: scalar_def split: if_splits option.splits)

lemma mapFields_ok:
  "\<forall>f\<in>set fs. scalar (row (name f)) \<Longrightarrow> \<exists>m'. mapFields codes e fs row m = Inr m'"
proof (induction fs arbitrary: m)
  case Nil
  then show ?case by simp
next
  case (Cons f fs)
  then obtain v where "getDataValue codes e f (row (name f)) = Inr v"
    using getDataValue_scalar[of "row (name f)" codes e f] by auto
  with Cons show ?case by simp
qed

lemma mapFields_fail:
  "\<exists>f\<in>set fs. \<not> scalar (row (name f)) \<Longrightarrow>
   mapFields codes e fs row m = Inl (Error ''Invalid field type for shape map.'')"
proof (induction fs arbitrary: m)
  case Nil
  then show ?case by simp
next
  case (Cons f fs)
  show ?case
  proof (cases "scalar (row (name f))")
    case True
    then obtain v where "getDataValue codes e f (row (name f)) = Inr v"
      using getDataValue_scalar[of "row (name f)" codes e f] by auto
    moreover from True Cons.prems have "\<exists>g\<in>set fs. \<not> scalar (row (name g))" by auto
    ultimately show ?thesis using Cons.IH by simp
  next
    case False
    then show ?thesis by (simp add: getDataValue_not_scalar)
  qed
qed

lemma mapFields_other:
  "mapFields codes e fs row m = Inr m' \<Longrightarrow> x \<notin> set (map name fs) \<Longrightarrow> m' x = m x"
proof (induction fs arbitrary: m)
  case Nil
  then show ?case by simp
next
  case (Cons f fs)
  then show ?case by (auto split: sum.splits)
qed

lemma mapFields_lookup:
  "mapFields codes e fs row m = Inr m' \<Longrightarrow> distinct (map name fs) \<Longrightarrow> f \<in> set fs \<Longrightarrow>
   getDataValue codes e f (row (name f)) = Inr (m' (name f))"
proof (induction fs arbitrary: m)
  case Nil
  then show ?case by simp
next
  case (Cons g fs)
  from Cons.prems(1) obtain v where v: "getDataValue codes e g (row (name g)) = Inr v"
    and rest: "mapFields codes e fs row (m(name g := v)) = Inr m'"
    by (auto split: sum.splits)
  show ?case
  proof (cases "f = g")
    case True
    from Cons.prems(2) have "name g \<notin> set (map name fs)" by simp
    with rest have "m' (name g) = (m(name g := v)) (name g)" by (rule mapFields_other)
    with v True show ?thesis by simp
  next
    case False
    with Cons.prems have "f \<in> set fs" "distinct (map name fs)" by auto
    with rest show ?thesis using Cons.IH by blast
  qed
qed


lemma mapData_rows:
  "mapData codes e rows = Inr ms \<Longrightarrow> map Inr ms = map (mapRow codes e) rows"
proof (induction rows arbitrary: ms)
  case Nil
  then show ?case by simp
next
  case (Cons r rows)
  then show ?case by (auto split: sum.splits)
qed

lemma mapRow_ok:
  "list_all (\<lambda>f. scalar (row (name f))) (intrinsicFields e) \<Longrightarrow> \<exists>m. mapRow codes e row = Inr m"
  unfolding mapRow_def by (rule mapFields_ok) (simp add: list_all_iff)

lemma mapRow_fail:
  "\<not> list_all (\<lambda>f. scalar (row (name f))) (intrinsicFields e) \<Longrightarrow>
   mapRow codes e row = Inl (Error ''Invalid field type for shape map.'')"
  unfolding mapRow_def by (rule mapFields_fail) (simp add: list_all_iff)

lemma mapData_ok:
  "list_all (\<lambda>row. list_all (\<lambda>f. scalar (row (name f))) (intrinsicFields e)) rows \<Longrightarrow>
   \<exists>ms. mapData codes e rows = Inr ms"
proof (induction rows)
  case Nil
  then show ?case by simp
next
  case (Cons r rows)
  then obtain m where "mapRow codes e r = Inr m"
    using mapRow_ok[of r e codes] by auto
  moreover from Cons obtain ms where "mapData codes e rows = Inr ms" by auto
  ultimately show ?case by simp
qed

lemma mapData_fail:
  "\<not> list_all (\<lambda>row. list_all (\<lambda>f. scalar (row (name f))) (intrinsicFields e)) rows \<Longrightarrow>
   mapData codes e rows = Inl (Error ''Invalid field type for shape map.'')"
proof (induction rows)
  case Nil
  then show ?case by simp
next
  case (Cons r rows)
  show ?case
  proof (cases "list_all (\<lambda>f. scalar (r (name f))) (intrinsicFields e)")
    case True
    then obtain m where "mapRow codes e r = Inr m"
      using mapRow_ok[of r e codes] by auto
    moreover from True Cons have "mapData codes e rows = Inl (Error ''Invalid field type for shape map.'')"
      by simp
    ultimately show ?thesis by simp
  next
    case False
    then show ?thesis by (simp add: mapRow_fail)
  qed
qed

lemma getDataType_classifiable:
  "classifiable f \<Longrightarrow> \<exists>t. getDataType e f = Inr t"
  by (auto simp: classifiable_def getDataType_def isAtomicField_def isDate_def isTimestamp_def
      isStringField_def isNumberField_def)

lemma getDataType_not_classifiable:
  "\<not> classifiable f \<Longrightarrow> getDataType e f = Inl (Error ''Invalid field type for shape map.'')"
  by (auto simp: classifiable_def getDataType_def isAtomicField_def isDate_def isTimestamp_def
      isStringField_def isNumberField_def)

lemma assemble_short:
  "length (intrinsicFields e) < 2 \<Longrightarrow> assemble R e rows = Inl TypeError"
  by (cases "intrinsicFields e"; cases "tl (intrinsicFields e)")
     (auto simp: assemble_def getColorField_def getRegionField_def)

lemma assemble_Inr:
  assumes "assemble R e rows = Inr s"
  shows "\<exists>rf cf rest t ms. intrinsicFields e = rf # cf # rest \<and> getDataType e cf = Inr t \<and>
           mapData (COUNTRY_CODES R) e rows = Inr ms \<and>
           s = \<lparr>size = getSize R,
                data_values = filter (\<lambda>row. row (name rf) \<noteq> None) ms,
                projection_type = ''mercator'',
                layer = [sphereLayer, baseMapLayer (world R),
                         dataLayer (world R) (name rf)
                           \<lparr>color_field = name cf, color_type = Some t,
                            axis_title = formatTitle R (name cf),
                            scale = getColorScale R (Some t) False\<rparr>]\<rparr>"
proof -
  from assms obtain rf cf rest where fs: "intrinsicFields e = rf # cf # rest"
    by (cases "intrinsicFields e"; cases "tl (intrinsicFields e)")
       (auto simp: assemble_def getColorField_def getRegionField_def)
  with assms show ?thesis
    by (auto simp: assemble_def getColorField_def getRegionField_def Let_def split: sum.splits)
qed

lemma assemble_valid:
  assumes "validInput e rows"
  shows "\<exists>s. assemble R e rows = Inr s"
proof -
  from assms obtain rf cf rest where fs: "intrinsicFields e = rf # cf # rest"
    and cl: "classifiable cf"
    and sc: "list_all (\<lambda>row. list_all (\<lambda>f. scalar (row (name f))) (intrinsicFields e)) rows"
    by (auto simp: validInput_def split: list.splits)
  from cl obtain t where "getDataType e cf = Inr t" using getDataType_classifiable by blast
  moreover from sc obtain ms where "mapData (COUNTRY_CODES R) e rows = Inr ms"
    using mapData_ok by blast
  ultimately show ?thesis using fs
    by (simp add: assemble_def getColorField_def getRegionField_def Let_def)
qed

lemma assemble_Inr_valid:
  assumes "assemble R e rows = Inr s"
  shows "validInput e rows"
proof -
  from assemble_Inr[OF assms] obtain rf cf rest t ms where
    fs: "intrinsicFields e = rf # cf # rest" and t: "getDataType e cf = Inr t"
    and ms: "mapData (COUNTRY_CODES R) e rows = Inr ms" by blast
  from t have "classifiable cf" using getDataType_not_classifiable[of cf e] by auto
  moreover from ms have "list_all (\<lambda>row. list_all (\<lambda>f. scalar (row (name f))) (intrinsicFields e)) rows"
    using mapData_fail[of e rows "COUNTRY_CODES R"] by auto
  ultimately show ?thesis using fs by (simp add: validInput_def)
qed

lemma mapRow_region:
  assumes "mapRow codes e row = Inr m" "distinct (map name (intrinsicFields e))"
    "getRegionField e = Some rf"
  shows "(m (name rf) = None) = regionAbsent codes e row"
proof -
  from assms(3) have mem: "rf \<in> set (intrinsicFields e)"
    by (auto simp: getRegionField_def split: list.splits)
  from assms(1,2) mem have gv: "getDataValue codes e rf (row (name rf)) = Inr (m (name rf))"
    unfolding mapRow_def by (rule mapFields_lookup)
  then have "m (name rf) = (case getDataValue codes e rf (row (name rf)) of Inr v \<Rightarrow> v)"
    by simp
  with gv assms(3) show ?thesis
    by (cases "row (name rf)")
       (auto simp: regionAbsent_def unresolvedRegion_def nullRegion_def regionCell_def
             split: option.splits)
qed

lemma mapData_filter:
  assumes "distinct (map name (intrinsicFields e))" "getRegionField e = Some rf"
  shows "mapData codes e rows = Inr ms \<Longrightarrow>
         map Inr (filter (\<lambda>m. m (name rf) \<noteq> None) ms) =
         map (mapRow codes e) (filter (\<lambda>row. \<not> regionAbsent codes e row) rows)"
proof (induction rows arbitrary: ms)
  case Nil
  then show ?case by simp
next
  case (Cons r rows)
  from Cons.prems obtain m ms' where m: "mapRow codes e r = Inr m"
    and ms': "mapData codes e rows = Inr ms'" and eq: "ms = m # ms'"
    by (auto split: sum.splits)
  from mapRow_region[OF m assms] have "(m (name rf) = None) = regionAbsent codes e r" .
  with Cons.IH[OF ms'] m eq show ?case by auto
qed

lemma getVegaLiteSpec_rows:
  assumes "getVegaLiteSpec R (DataArray e rows) = Inr s"
    and "distinct (map name (intrinsicFields e))"
  shows "map Inr (data_values s) =
         map (mapRow (COUNTRY_CODES R) e)
           (filter (\<lambda>row. \<not> regionAbsent (COUNTRY_CODES R) e row) rows)"
proof -
  from assms(1) have "assemble R e rows = Inr s" by simp
  from assemble_Inr[OF this] obtain rf cf rest ms where
    fs: "intrinsicFields e = rf # cf # rest"
    and ms: "mapData (COUNTRY_CODES R) e rows = Inr ms"
    and s: "data_values s = filter (\<lambda>row. row (name rf) \<noteq> None) ms" by auto
  from fs have "getRegionField e = Some rf" by (simp add: getRegionField_def)
  from mapData_filter[OF assms(2) this ms] s show ?thesis by simp
qed

lemma mapRow_cell:
  assumes "mapRow codes e row = Inr m" "distinct (map name (intrinsicFields e))"
    "f \<in> set (intrinsicFields e)"
  shows "getDataValue codes e f (row (name f)) = Inr (m (name f))"
  using assms unfolding mapRow_def by (rule mapFields_lookup)

lemma region_mem: "getRegionField e = Some rf \<Longrightarrow> rf \<in> set (intrinsicFields e)"
  by (auto simp: getRegionField_def split: list.splits)

lemma surviving_row:
  assumes "getVegaLiteSpec R (DataArray e rows) = Inr s"
    and "distinct (map name (intrinsicFields e))"
    and "row \<in> set rows" and "\<not> regionAbsent (COUNTRY_CODES R) e row"
  shows "\<exists>m\<in>set (data_values s). mapRow (COUNTRY_CODES R) e row = Inr m"
proof -
  from assms(3,4) have "mapRow (COUNTRY_CODES R) e row \<in>
      set (map (mapRow (COUNTRY_CODES R) e)
        (filter (\<lambda>row. \<not> regionAbsent (COUNTRY_CODES R) e row) rows))" by simp
  then have "mapRow (COUNTRY_CODES R) e row \<in> set (map Inr (data_values s))"
    using getVegaLiteSpec_rows[OF assms(1,2)] by simp
  then show ?thesis by auto
qed

lemma output_region_present:
  assumes "getVegaLiteSpec R (DataArray e rows) = Inr s" and "getRegionField e = Some rf"
    and "m \<in> set (data_values s)"
  shows "m (name rf) \<noteq> None"
proof -
  from assms(1) have "assemble R e rows = Inr s" by simp
  from assemble_Inr[OF this] obtain rf' cf rest ms where
    fs: "intrinsicFields e = rf' # cf # rest"
    and s: "data_values s = filter (\<lambda>row. row (name rf') \<noteq> None) ms" by auto
  from fs assms(2) have "rf' = rf" by (simp add: getRegionField_def)
  with s assms(3) show ?thesis by auto
qed

lemma getVegaLiteSpec_valid:
  "validInput e rows \<Longrightarrow> \<exists>s. getVegaLiteSpec R (DataArray e rows) = Inr s"
  using assemble_valid[of e rows R] by simp

lemma valid_region: "validInput e rows \<Longrightarrow> \<exists>rf. getRegionField e = Some rf"
  by (auto simp: validInput_def getRegionField_def split: list.splits)

lemma dropped_row:
  assumes "getVegaLiteSpec R (DataArray e rows) = Inr s"
    and "distinct (map name (intrinsicFields e))"
    and "regionAbsent (COUNTRY_CODES R) e row" and "mapRow (COUNTRY_CODES R) e row = Inr m"
  shows "m \<notin> set (data_values s)"
proof -
  from assms(1) have "validInput e rows" using assemble_Inr_valid[of R e rows s] by simp
  then obtain rf where rf: "getRegionField e = Some rf" using valid_region by blast
  from mapRow_region[OF assms(4,2) rf] assms(3) have "m (name rf) = None" by simp
  show ?thesis
  proof
    assume "m \<in> set (data_values s)"
    from output_region_present[OF assms(1) rf this] \<open>m (name rf) = None\<close>
    show False by simp
  qed
qed

lemma output_length:
  assumes "getVegaLiteSpec R (DataArray e rows) = Inr s"
    and "distinct (map name (intrinsicFields e))"
  shows "length (data_values s) =
         length rows - length (filter (regionAbsent (COUNTRY_CODES R) e) rows)"
proof -
  have "length (data_values s) = length (map Inr (data_values s) :: (error + _) list)" by simp
  also have "\<dots> = length (filter (\<lambda>row. \<not> regionAbsent (COUNTRY_CODES R) e row) rows)"
    by (simp only: getVegaLiteSpec_rows[OF assms] length_map)
  also have "\<dots> = length rows - length (filter (regionAbsent (COUNTRY_CODES R) e) rows)"
    using sum_length_filter_compl[of "regionAbsent (COUNTRY_CODES R) e" rows] by simp
  finally show ?thesis .
qed

lemma getVegaLiteSpec_Inl:
  assumes "intrinsicFields e = rf # cf # rest"
    and "getVegaLiteSpec R (DataArray e rows) = Inl err"
  shows "err = invalidFieldType"
proof (cases "validInput e rows")
  case True
  then show ?thesis using getVegaLiteSpec_valid[of e rows R] assms(2) by auto
next
  case False
  show ?thesis
  proof (cases "classifiable cf")
    case c: True
    with False assms(1)
    have "\<not> list_all (\<lambda>row. list_all (\<lambda>f. scalar (row (name f))) (intrinsicFields e)) rows"
      by (simp add: validInput_def)
    then have "mapData (COUNTRY_CODES R) e rows = Inl (Error ''Invalid field type for shape map.'')"
      by (rule mapData_fail)
    moreover from c obtain t where "getDataType e cf = Inr t"
      using getDataType_classifiable by blast
    ultimately show ?thesis using assms
      by (simp add: assemble_def getColorField_def getRegionField_def invalidFieldType_def)
  next
    case False
    then have "getDataType e cf = Inl (Error ''Invalid field type for shape map.'')"
      by (rule getDataType_not_classifiable)
    then show ?thesis using assms
      by (simp add: assemble_def getColorField_def getRegionField_def invalidFieldType_def)
  qed
qed

lemma getVegaLiteSpec_invalid:
  assumes "intrinsicFields e = rf # cf # rest" and "\<not> validInput e rows"
  shows "getVegaLiteSpec R (DataArray e rows) = Inl invalidFieldType"
proof (cases "getVegaLiteSpec R (DataArray e rows)")
  case (Inl err)
  with getVegaLiteSpec_Inl[OF assms(1) Inl] show ?thesis by simp
next
  case (Inr s)
  then have "validInput e rows" using assemble_Inr_valid[of R e rows s] by simp
  with assms(2) show ?thesis by simp
qed

lemma getVegaLiteSpec_Inr_iff:
  "(\<exists>s. getVegaLiteSpec R (DataArray e rows) = Inr s) = validInput e rows"
  using assemble_valid[of e rows R] assemble_Inr_valid[of R e rows] by auto

subsection \<open>The example result set\<close>

lemmas country_defs = countryExplore_def countryField_def valueField_def countryRow_def
  scenarioRows_def countryCodes_def countryRenderer_def propertyRead_def objectPrototypeKeys_def

lemma scenario_valid: "validInput countryExplore scenarioRows"
  by (simp add: validInput_def country_defs classifiable_def scalar_def)

lemma scenario_distinct: "distinct (map name (intrinsicFields countryExplore))"
  by (simp add: country_defs)

lemma scenario_region: "getRegionField countryExplore = Some countryField"
  by (simp add: getRegionField_def countryExplore_def)

lemma scenario_output:
  "outputRows countryRenderer (DataArray countryExplore scenarioRows) =
     Inr [[''country'' \<mapsto> VNumber 250, ''value'' \<mapsto> VNumber 10], [''country'' \<mapsto> VNumber 392]]"
  by (simp add: outputRows_def assemble_def mapRow_def getColorField_def getRegionField_def
      getDataType_def isAtomicField_def isDate_def isTimestamp_def isStringField_def isNumberField_def
      country_defs)

text \<open>
  Region strings that name members of \<^verbatim>\<open>Object.prototype\<close> have no entry in the
  table, yet the bracket read gives a value for them and their rows stay in the
  output.
\<close>

lemma inherited_region_rows_kept:
  "countryCodes ''toString'' = None \<and> countryCodes ''constructor'' = None \<and>
   outputRowCount countryRenderer
     (DataArray countryExplore
        [countryRow (DataString ''toString'') (DataNumber 1),
         countryRow (DataString ''constructor'') (DataNumber 2)]) = Inr 2"
  by (simp add: outputRowCount_def outputRows_def assemble_def mapRow_def getColorField_def
      getRegionField_def getDataType_def isAtomicField_def isDate_def isTimestamp_def
      isStringField_def isNumberField_def country_defs)

subsection \<open>The claims\<close>

text \<open>
  Claim C1 (amended). Take a valid input with distinctly named fields in which no
  region string without an entry in the table names a member of \<^verbatim>\<open>Object.prototype\<close>.
  The output rows are the mapped rows of exactly those input rows whose region cell
  is neither a string with no entry in the country code table nor null, in the order
  of the input. The number of output rows is the number of input rows minus the
  number of rows of these two kinds; it is the number of input rows minus the number
  of unresolvable region strings when no region cell is null. No row with an
  unresolvable region string is in the output.
\<close>

theorem unresolved_region_rows_dropped:
  assumes "validInput e rows" and "distinct (map name (intrinsicFields e))"
    and "\<not> list_ex (inheritedRegion (COUNTRY_CODES R) e) rows"
  shows "\<exists>s. getVegaLiteSpec R (DataArray e rows) = Inr s \<and>
           map Inr (data_values s) =
             map (mapRow (COUNTRY_CODES R) e)
               (filter (\<lambda>row. \<not> (unresolvedRegion (COUNTRY_CODES R) e row \<or> nullRegion e row))
                  rows) \<and>
           length (data_values s) =
             length rows -
               length (filter (\<lambda>row. unresolvedRegion (COUNTRY_CODES R) e row \<or> nullRegion e row)
                  rows) \<and>
           (\<not> list_ex (nullRegion e) rows \<longrightarrow>
              length (data_values s) =
                length rows - length (filter (unresolvedRegion (COUNTRY_CODES R) e) rows)) \<and>
           (\<forall>row\<in>set rows. \<forall>m.
              unresolvedRegion (COUNTRY_CODES R) e row \<and> mapRow (COUNTRY_CODES R) e row = Inr m
                \<longrightarrow> m \<notin> set (data_values s))"
proof -
  from assms(1) obtain s where s: "getVegaLiteSpec R (DataArray e rows) = Inr s"
    using getVegaLiteSpec_valid by blast
  have absent: "regionAbsent (COUNTRY_CODES R) e row =
      (unresolvedRegion (COUNTRY_CODES R) e row \<or> nullRegion e row)" if "row \<in> set rows" for row
    using that assms(3) by (auto simp: regionAbsent_iff list_ex_iff)
  have keep: "filter (\<lambda>row. \<not> regionAbsent (COUNTRY_CODES R) e row) rows =
      filter (\<lambda>row. \<not> (unresolvedRegion (COUNTRY_CODES R) e row \<or> nullRegion e row)) rows"
    by (rule filter_cong) (simp_all add: absent)
  have gone: "filter (regionAbsent (COUNTRY_CODES R) e) rows =
      filter (\<lambda>row. unresolvedRegion (COUNTRY_CODES R) e row \<or> nullRegion e row) rows"
    by (rule filter_cong) (simp_all add: absent)
  have rows: "map Inr (data_values s) =
      map (mapRow (COUNTRY_CODES R) e)
        (filter (\<lambda>row. \<not> (unresolvedRegion (COUNTRY_CODES R) e row \<or> nullRegion e row)) rows)"
    using getVegaLiteSpec_rows[OF s assms(2)] keep by simp
  have len: "length (data_values s) =
      length rows -
        length (filter (\<lambda>row. unresolvedRegion (COUNTRY_CODES R) e row \<or> nullRegion e row) rows)"
    using output_length[OF s assms(2)] gone by simp
  have nonull: "length (data_values s) =
      length rows - length (filter (unresolvedRegion (COUNTRY_CODES R) e) rows)"
    if "\<not> list_ex (nullRegion e) rows"
  proof -
    from that have "filter (\<lambda>row. unresolvedRegion (COUNTRY_CODES R) e row \<or> nullRegion e row) rows =
        filter (unresolvedRegion (COUNTRY_CODES R) e) rows"
      by (intro filter_cong) (auto simp: list_ex_iff)
    with len show ?thesis by simp
  qed
  have drop: "m \<notin> set (data_values s)"
    if "row \<in> set rows" "unresolvedRegion (COUNTRY_CODES R) e row"
      "mapRow (COUNTRY_CODES R) e row = Inr m" for row m
    using dropped_row[OF s assms(2) _ that(3)] that(1,2) by (simp add: absent)
  from s rows len nonull drop show ?thesis by blast
qed

theorem unresolved_region_rows_dropped_witness:
  "validInput countryExplore scenarioRows \<and>
   distinct (map name (intrinsicFields countryExplore)) \<and>
   \<not> list_ex (inheritedRegion (COUNTRY_CODES countryRenderer) countryExplore) scenarioRows \<and>
   \<not> list_ex (nullRegion countryExplore) scenarioRows \<and>
   length scenarioRows = 3 \<and>
   length (filter (unresolvedRegion (COUNTRY_CODES countryRenderer) countryExplore) scenarioRows) = 1 \<and>
   outputRowCount countryRenderer (DataArray countryExplore scenarioRows) = Inr 2"
proof -
  have ni: "\<not> list_ex (inheritedRegion (COUNTRY_CODES countryRenderer) countryExplore) scenarioRows"
    by (simp add: inheritedRegion_def regionCell_def getRegionField_def country_defs)
  have nn: "\<not> list_ex (nullRegion countryExplore) scenarioRows"
    by (simp add: nullRegion_def regionCell_def getRegionField_def country_defs)
  have un: "length (filter (unresolvedRegion (COUNTRY_CODES countryRenderer) countryExplore) scenarioRows) = 1"
    by (simp add: unresolvedRegion_def regionCell_def getRegionField_def country_defs)
  have len: "length scenarioRows = 3" by (simp add: scenarioRows_def)
  from unresolved_region_rows_dropped[OF scenario_valid scenario_distinct ni] nn
  obtain s where "getVegaLiteSpec countryRenderer (DataArray countryExplore scenarioRows) = Inr s"
    and "length (data_values s) =
      length scenarioRows - length (filter (unresolvedRegion (COUNTRY_CODES countryRenderer) countryExplore) scenarioRows)"
    by blast
  then have "outputRowCount countryRenderer (DataArray countryExplore scenarioRows) = Inr 2"
    by (simp add: outputRowCount_def outputRows_def un len)
  with scenario_valid scenario_distinct ni nn un len show ?thesis by blast
qed

text \<open>
  One row with a null region cell and no unresolvable region string: the output has
  no row, not one.
\<close>

theorem unresolved_count_counterexample:
  "validInput countryExplore [countryRow DataNull (DataNumber 1)] \<and>
   outputRowCount countryRenderer (DataArray countryExplore [countryRow DataNull (DataNumber 1)]) = Inr 0 \<and>
   length [countryRow DataNull (DataNumber 1)] -
     length (filter (unresolvedRegion (COUNTRY_CODES countryRenderer) countryExplore)
       [countryRow DataNull (DataNumber 1)]) = 1"
  by (simp add: outputRowCount_def outputRows_def assemble_def mapRow_def getColorField_def
      getRegionField_def getDataType_def isAtomicField_def isDate_def isTimestamp_def
      isStringField_def isNumberField_def unresolvedRegion_def regionCell_def validInput_def
      classifiable_def scalar_def country_defs)

text \<open>
  Claim C2. On a valid input with distinctly named fields, every row whose region
  cell is a string with an entry in the country code table has its mapped row in the
  output, and there the region field holds the identifier of the table as a number,
  not the string.
\<close>

theorem known_region_mapped_to_identifier:
  assumes "validInput e rows" and "distinct (map name (intrinsicFields e))"
    and "row \<in> set rows" and "getRegionField e = Some rf"
    and "row (name rf) = DataString c" and "COUNTRY_CODES R c = Some ident"
  shows "\<exists>s. getVegaLiteSpec R (DataArray e rows) = Inr s \<and>
           (\<exists>m\<in>set (data_values s). mapRow (COUNTRY_CODES R) e row = Inr m \<and>
              m (name rf) = Some (VNumber ident))"
proof -
  from assms(1) obtain s where s: "getVegaLiteSpec R (DataArray e rows) = Inr s"
    using getVegaLiteSpec_valid by blast
  from assms(4,5,6) have "\<not> regionAbsent (COUNTRY_CODES R) e row"
    by (simp add: regionAbsent_def regionCell_def propertyRead_own)
  from surviving_row[OF s assms(2,3) this] obtain m where
    m: "m \<in> set (data_values s)" "mapRow (COUNTRY_CODES R) e row = Inr m" by blast
  from mapRow_cell[OF m(2) assms(2) region_mem[OF assms(4)]] assms(4,5,6)
  have "m (name rf) = Some (VNumber ident)" by (simp add: propertyRead_own)
  with s m show ?thesis by blast
qed

theorem known_region_mapped_to_identifier_witness:
  "validInput countryExplore scenarioRows \<and>
   distinct (map name (intrinsicFields countryExplore)) \<and>
   countryRow (DataString ''France'') (DataNumber 10) \<in> set scenarioRows \<and>
   getRegionField countryExplore = Some countryField \<and>
   countryRow (DataString ''France'') (DataNumber 10) (name countryField) = DataString ''France'' \<and>
   COUNTRY_CODES countryRenderer ''France'' = Some 250 \<and>
   (\<exists>s. getVegaLiteSpec countryRenderer (DataArray countryExplore scenarioRows) = Inr s \<and>
      (\<exists>m\<in>set (data_values s).
         mapRow (COUNTRY_CODES countryRenderer) countryExplore
           (countryRow (DataString ''France'') (DataNumber 10)) = Inr m \<and>
         m (name countryField) = Some (VNumber 250)))"
proof -
  have h3: "countryRow (DataString ''France'') (DataNumber 10) \<in> set scenarioRows"
    by (simp add: scenarioRows_def)
  have h5: "countryRow (DataString ''France'') (DataNumber 10) (name countryField) = DataString ''France''"
    by (simp add: countryRow_def countryField_def)
  have h6: "COUNTRY_CODES countryRenderer ''France'' = Some 250"
    by (simp add: countryRenderer_def countryCodes_def)
  from known_region_mapped_to_identifier[OF scenario_valid scenario_distinct h3 scenario_region h5 h6]
    scenario_valid scenario_distinct h3 scenario_region h5 h6
  show ?thesis by blast
qed

text \<open>
  Claim C3. The encoding type depends only on the field's kind and on whether the
  field is the region field: a date or timestamp field is nominal, a string field
  that is the region field is quantitative, any other string field is nominal, a
  number field is quantitative.
\<close>

theorem getDataType_classification:
  "(kind f = KDate \<or> kind f = KTimestamp \<longrightarrow> getDataType e f = Inr Nominal) \<and>
   (kind f = KString \<and> getRegionField e = Some f \<longrightarrow> getDataType e f = Inr Quantitative) \<and>
   (kind f = KString \<and> getRegionField e \<noteq> Some f \<longrightarrow> getDataType e f = Inr Nominal) \<and>
   (kind f = KNumber \<longrightarrow> getDataType e f = Inr Quantitative) \<and>
   (kind f = kind g \<and> (getRegionField e = Some f) = (getRegionField e' = Some g)
      \<longrightarrow> getDataType e f = getDataType e' g)"
  by (auto simp: getDataType_def isAtomicField_def isDate_def isTimestamp_def
      isStringField_def isNumberField_def)


theorem getDataType_classification_witness:
  "getDataType countryExplore \<lparr>fid = 2, name = ''day'', kind = KDate\<rparr> = Inr Nominal \<and>
   getDataType countryExplore \<lparr>fid = 2, name = ''at'', kind = KTimestamp\<rparr> = Inr Nominal \<and>
   getDataType countryExplore countryField = Inr Quantitative \<and>
   getDataType countryExplore \<lparr>fid = 2, name = ''label'', kind = KString\<rparr> = Inr Nominal \<and>
   getDataType countryExplore valueField = Inr Quantitative"
proof -
  have r: "getRegionField countryExplore = Some countryField" by (rule scenario_region)
  have n: "getRegionField countryExplore \<noteq> Some \<lparr>fid = 2, name = ''label'', kind = KString\<rparr>"
    by (simp add: r countryField_def)
  show ?thesis
    using getDataType_classification[of "\<lparr>fid = 2, name = ''day'', kind = KDate\<rparr>" countryExplore]
      getDataType_classification[of "\<lparr>fid = 2, name = ''at'', kind = KTimestamp\<rparr>" countryExplore]
      getDataType_classification[of countryField countryExplore]
      getDataType_classification[of "\<lparr>fid = 2, name = ''label'', kind = KString\<rparr>" countryExplore]
      getDataType_classification[of valueField countryExplore] r n
    by (simp add: countryField_def valueField_def)
qed

text \<open>
  Claim C4. On every valid input, whatever its rows, the specification has the
  mercator projection and exactly three layers in this order: the sphere background,
  the base map of the world's countries, and the data overlay that looks the region
  field up in the world's countries and colours by the color field.
\<close>

theorem three_layers_mercator:
  assumes "validInput e rows"
  shows "\<exists>s rf cf rest t.
           getVegaLiteSpec R (DataArray e rows) = Inr s \<and>
           intrinsicFields e = rf # cf # rest \<and>
           getDataType e cf = Inr t \<and>
           projection_type s = ''mercator'' \<and>
           length (layer s) = 3 \<and>
           layer s =
             [sphereLayer,
              baseMapLayer (world R),
              dataLayer (world R) (name rf)
                \<lparr>color_field = name cf, color_type = Some t,
                 axis_title = formatTitle R (name cf),
                 scale = getColorScale R (Some t) False\<rparr>]"
proof -
  from assms obtain s where "assemble R e rows = Inr s"
    using assemble_valid by blast
  from assemble_Inr[OF this] this show ?thesis by auto
qed

theorem three_layers_mercator_witness:
  "validInput countryExplore [countryRow (DataString ''Atlantis'') (DataNumber 5)] \<and>
   outputRows countryRenderer
     (DataArray countryExplore [countryRow (DataString ''Atlantis'') (DataNumber 5)]) = Inr [] \<and>
   (\<exists>s. getVegaLiteSpec countryRenderer
          (DataArray countryExplore [countryRow (DataString ''Atlantis'') (DataNumber 5)]) = Inr s \<and>
        projection_type s = ''mercator'' \<and>
        length (layer s) = 3 \<and>
        layer s =
          [DataLayer (SphereData True) (MarkDef ''geoshape'' ''aliceblue'' None),
           DataLayer (TopoData () ''topojson'' ''countries'')
             (MarkDef ''geoshape'' ''mintcream'' (Some ''black'')),
           LookupLayer
             [\<lparr>lookup = ''country'', from_data = TopoData () ''topojson'' ''countries'',
               from_key = ''id'', lookup_as = ''geo''\<rparr>]
             (MarkName ''geoshape'')
             \<lparr>shape_field = ''geo'', shape_type = ''geojson'',
              color = \<lparr>color_field = ''value'', color_type = Some Quantitative,
                       axis_title = ''value'', scale = Some Quantitative\<rparr>\<rparr>])"
proof -
  have v: "validInput countryExplore [countryRow (DataString ''Atlantis'') (DataNumber 5)]"
    by (simp add: validInput_def classifiable_def scalar_def country_defs)
  from three_layers_mercator[OF v, of countryRenderer] obtain s rf cf rest t where
    s: "getVegaLiteSpec countryRenderer
          (DataArray countryExplore [countryRow (DataString ''Atlantis'') (DataNumber 5)]) = Inr s"
    and fs: "intrinsicFields countryExplore = rf # cf # rest"
    and t: "getDataType countryExplore cf = Inr t"
    and p: "projection_type s = ''mercator''" "length (layer s) = 3"
    and l: "layer s =
             [sphereLayer,
              baseMapLayer (world countryRenderer),
              dataLayer (world countryRenderer) (name rf)
                \<lparr>color_field = name cf, color_type = Some t,
                 axis_title = formatTitle countryRenderer (name cf),
                 scale = getColorScale countryRenderer (Some t) False\<rparr>]"
    by blast
  from fs have rf: "rf = countryField" and cf: "cf = valueField"
    by (simp_all add: countryExplore_def)
  from t cf have t': "t = Quantitative"
    by (simp add: getDataType_def isAtomicField_def isDate_def isTimestamp_def
        isStringField_def isNumberField_def valueField_def)
  have out: "outputRows countryRenderer
     (DataArray countryExplore [countryRow (DataString ''Atlantis'') (DataNumber 5)]) = Inr []"
    by (simp add: outputRows_def assemble_def mapRow_def getColorField_def getRegionField_def
      getDataType_def isAtomicField_def isDate_def isTimestamp_def isStringField_def
      isNumberField_def country_defs)
  from l have "layer s =
          [DataLayer (SphereData True) (MarkDef ''geoshape'' ''aliceblue'' None),
           DataLayer (TopoData () ''topojson'' ''countries'')
             (MarkDef ''geoshape'' ''mintcream'' (Some ''black'')),
           LookupLayer
             [\<lparr>lookup = ''country'', from_data = TopoData () ''topojson'' ''countries'',
               from_key = ''id'', lookup_as = ''geo''\<rparr>]
             (MarkName ''geoshape'')
             \<lparr>shape_field = ''geo'', shape_type = ''geojson'',
              color = \<lparr>color_field = ''value'', color_type = Some Quantitative,
                       axis_title = ''value'', scale = Some Quantitative\<rparr>\<rparr>]"
    by (simp add: rf cf t' sphereLayer_def baseMapLayer_def dataLayer_def worldCountries_def
        countryRenderer_def countryField_def valueField_def)
  with v out s p show ?thesis by blast
qed

text \<open>
  Claim C5. A cell that is not a number, a string or null (an array, a record, any
  other cell) makes \<open>getDataValue\<close> raise InvalidFieldType, and a field that is not a
  string, number, date or timestamp field makes \<open>getDataType\<close> raise it. Where the
  transform classifies, the error aborts the call: with at least two fields, a color
  field of another kind, or such a cell under any field of any row, makes
  \<open>getVegaLiteSpec\<close> raise InvalidFieldType. A string cell never raises: under the
  region field, with no entry in the table and no member of \<^verbatim>\<open>Object.prototype\<close> of
  its name, its value is absent, and a valid input whose region strings are all
  unknown still yields a specification.
\<close>

theorem invalid_field_type_aborts:
  "(\<not> scalar c \<longrightarrow> getDataValue codes e f c = Inl invalidFieldType) \<and>
   (\<not> classifiable f \<longrightarrow> getDataType e f = Inl invalidFieldType) \<and>
   (intrinsicFields e = rf # cf # rest \<and> \<not> classifiable cf
      \<longrightarrow> getVegaLiteSpec R (DataArray e rows) = Inl invalidFieldType) \<and>
   (intrinsicFields e = rf # cf # rest \<and> row \<in> set rows \<and> g \<in> set (intrinsicFields e) \<and>
    \<not> scalar (row (name g))
      \<longrightarrow> getVegaLiteSpec R (DataArray e rows) = Inl invalidFieldType) \<and>
   (\<exists>v. getDataValue codes e f (DataString str) = Inr v) \<and>
   (Some f = getRegionField e \<and> codes str = None \<and> str \<notin> set objectPrototypeKeys
      \<longrightarrow> getDataValue codes e f (DataString str) = Inr None) \<and>
   (validInput e rows \<longrightarrow> (\<exists>s. getVegaLiteSpec R (DataArray e rows) = Inr s))"
proof -
  have 1: "\<not> scalar c \<longrightarrow> getDataValue codes e f c = Inl invalidFieldType"
    by (simp add: getDataValue_not_scalar invalidFieldType_def)
  have 2: "\<not> classifiable f \<longrightarrow> getDataType e f = Inl invalidFieldType"
    by (simp add: getDataType_not_classifiable invalidFieldType_def)
  have 3: "intrinsicFields e = rf # cf # rest \<and> \<not> classifiable cf
      \<longrightarrow> getVegaLiteSpec R (DataArray e rows) = Inl invalidFieldType"
  proof
    assume a: "intrinsicFields e = rf # cf # rest \<and> \<not> classifiable cf"
    then have "\<not> validInput e rows" by (simp add: validInput_def)
    with a show "getVegaLiteSpec R (DataArray e rows) = Inl invalidFieldType"
      using getVegaLiteSpec_invalid by blast
  qed
  have 4: "intrinsicFields e = rf # cf # rest \<and> row \<in> set rows \<and> g \<in> set (intrinsicFields e) \<and>
    \<not> scalar (row (name g))
      \<longrightarrow> getVegaLiteSpec R (DataArray e rows) = Inl invalidFieldType"
  proof
    assume a: "intrinsicFields e = rf # cf # rest \<and> row \<in> set rows \<and> g \<in> set (intrinsicFields e) \<and>
      \<not> scalar (row (name g))"
    then have "\<not> list_all (\<lambda>row. list_all (\<lambda>f. scalar (row (name f))) (intrinsicFields e)) rows"
      unfolding list_all_iff by blast
    with a have "\<not> validInput e rows" by (simp add: validInput_def)
    with a show "getVegaLiteSpec R (DataArray e rows) = Inl invalidFieldType"
      using getVegaLiteSpec_invalid by blast
  qed
  have 5: "\<exists>v. getDataValue codes e f (DataString str) = Inr v"
    by (rule getDataValue_scalar) (simp add: scalar_def)
  have 6: "Some f = getRegionField e \<and> codes str = None \<and> str \<notin> set objectPrototypeKeys
      \<longrightarrow> getDataValue codes e f (DataString str) = Inr None"
    by (simp add: propertyRead_def)
  have 7: "validInput e rows \<longrightarrow> (\<exists>s. getVegaLiteSpec R (DataArray e rows) = Inr s)"
    using getVegaLiteSpec_valid by blast
  from 1 2 3 4 5 6 7 show ?thesis by blast
qed


theorem invalid_field_type_aborts_witness:
  "\<not> scalar (DataOther :: int DataColumn) \<and>
   getDataValue countryCodes countryExplore countryField DataOther = Inl invalidFieldType \<and>
   \<not> classifiable \<lparr>fid = 1, name = ''flag'', kind = KOtherAtomic\<rparr> \<and>
   getDataType \<lparr>intrinsicFields = [countryField, \<lparr>fid = 1, name = ''flag'', kind = KOtherAtomic\<rparr>]\<rparr>
     \<lparr>fid = 1, name = ''flag'', kind = KOtherAtomic\<rparr> = Inl invalidFieldType \<and>
   getVegaLiteSpec countryRenderer
     (DataArray \<lparr>intrinsicFields = [countryField, \<lparr>fid = 1, name = ''flag'', kind = KOtherAtomic\<rparr>]\<rparr> [])
     = Inl invalidFieldType \<and>
   valueField \<in> set (intrinsicFields countryExplore) \<and>
   \<not> scalar (countryRow (DataString ''Atlantis'') DataOther (name valueField)) \<and>
   getVegaLiteSpec countryRenderer
     (DataArray countryExplore [countryRow (DataString ''Atlantis'') DataOther]) = Inl invalidFieldType \<and>
   Some countryField = getRegionField countryExplore \<and>
   countryCodes ''Atlantis'' = None \<and>
   ''Atlantis'' \<notin> set objectPrototypeKeys \<and>
   getDataValue countryCodes countryExplore countryField (DataString ''Atlantis'') = Inr None \<and>
   validInput countryExplore [countryRow (DataString ''Atlantis'') (DataNumber 5)] \<and>
   (\<exists>s. getVegaLiteSpec countryRenderer
      (DataArray countryExplore [countryRow (DataString ''Atlantis'') (DataNumber 5)]) = Inr s)"
proof -
  let ?flag = "\<lparr>fid = 1, name = ''flag'', kind = KOtherAtomic\<rparr>"
  let ?e = "\<lparr>intrinsicFields = [countryField, ?flag]\<rparr>"
  let ?bad = "countryRow (DataString ''Atlantis'') DataOther"
  let ?ok = "countryRow (DataString ''Atlantis'') (DataNumber 5)"
  have h1: "\<not> scalar (DataOther :: int DataColumn)" by (simp add: scalar_def)
  have h2: "\<not> classifiable ?flag" by (simp add: classifiable_def)
  have h3: "intrinsicFields ?e = countryField # ?flag # []" by simp
  have h4: "intrinsicFields countryExplore = countryField # valueField # []"
    by (simp add: countryExplore_def)
  have h5: "valueField \<in> set (intrinsicFields countryExplore)" by (simp add: countryExplore_def)
  have h6: "\<not> scalar (?bad (name valueField))"
    by (simp add: scalar_def countryRow_def valueField_def)
  have h7: "Some countryField = getRegionField countryExplore" by (simp add: scenario_region)
  have h8: "countryCodes ''Atlantis'' = None" by (simp add: countryCodes_def)
  have h9: "validInput countryExplore [?ok]"
    by (simp add: validInput_def classifiable_def scalar_def country_defs)
  have h10: "?bad \<in> set [?bad]" by simp
  have h11: "''Atlantis'' \<notin> set objectPrototypeKeys" by (simp add: objectPrototypeKeys_def)
  from invalid_field_type_aborts[of DataOther countryCodes countryExplore countryField
      countryField valueField "[]" countryRenderer "[?bad]" ?bad valueField "''Atlantis''"]
    h1 h4 h5 h6 h7 h8 h10 h11
  have a: "getDataValue countryCodes countryExplore countryField DataOther = Inl invalidFieldType"
    and b: "getVegaLiteSpec countryRenderer (DataArray countryExplore [?bad]) = Inl invalidFieldType"
    and c: "getDataValue countryCodes countryExplore countryField (DataString ''Atlantis'') = Inr None"
    by blast+
  from invalid_field_type_aborts[of DataOther countryCodes ?e ?flag
      countryField ?flag "[]" countryRenderer "[]" ?bad valueField "''Atlantis''"] h2 h3
  have d: "getDataType ?e ?flag = Inl invalidFieldType"
    and e: "getVegaLiteSpec countryRenderer (DataArray ?e []) = Inl invalidFieldType"
    by blast+
  from invalid_field_type_aborts[of DataOther countryCodes countryExplore countryField
      countryField valueField "[]" countryRenderer "[?ok]" ?ok valueField "''Atlantis''"] h9
  have f: "\<exists>s. getVegaLiteSpec countryRenderer (DataArray countryExplore [?ok]) = Inr s"
    by blast
  from h1 a h2 d e h5 h6 b h7 h8 h11 c h9 f show ?thesis by blast
qed

text \<open>
  Claim C6. A top-level value that is null or is not an array raises the input shape
  error: ``Expected struct value not to be null.'' for null, ``Invalid data for shape
  map'' otherwise. No specification is returned, and the error does not depend on the
  renderer's table and helpers: nothing of the input is mapped.
\<close>

theorem not_array_raises_input_shape:
  assumes "\<not> isArray d"
  shows "(\<exists>err. getVegaLiteSpec R d = Inl err \<and> invalidInputShape err) \<and>
         (isNull d \<longrightarrow> getVegaLiteSpec R d = Inl (Error ''Expected struct value not to be null.'')) \<and>
         (\<not> isNull d \<longrightarrow> getVegaLiteSpec R d = Inl (Error ''Invalid data for shape map'')) \<and>
         getVegaLiteSpec R d = getVegaLiteSpec R' d"
  using assms by (cases d) (simp_all add: invalidInputShape_def)

theorem not_array_raises_input_shape_witness:
  "\<not> isArray (DataNull :: int DataColumn) \<and> isNull (DataNull :: int DataColumn) \<and>
   getVegaLiteSpec countryRenderer DataNull = Inl (Error ''Expected struct value not to be null.'') \<and>
   \<not> isArray (DataString ''France'' :: int DataColumn) \<and>
   \<not> isNull (DataString ''France'' :: int DataColumn) \<and>
   getVegaLiteSpec countryRenderer (DataString ''France'') = Inl (Error ''Invalid data for shape map'')"
proof -
  have a: "\<not> isArray (DataNull :: int DataColumn)" by simp
  have b: "\<not> isArray (DataString ''France'' :: int DataColumn)" by simp
  from not_array_raises_input_shape[OF a, of countryRenderer countryRenderer]
    not_array_raises_input_shape[OF b, of countryRenderer countryRenderer]
  show ?thesis by simp
qed

text \<open>
  Claim C7. A result with fewer than two fields makes the call fail with a typed
  failure. The source does fail, but not with a typed failure: for a result with the
  region field only, \<^verbatim>\<open>colorType\<close> is computed under the guard
  \<^verbatim>\<open>colorField ? ... : undefined\<close>, and the next statement reads \<^verbatim>\<open>colorField.name\<close>
  without it, which raises the runtime's TypeError, neither InvalidFieldType nor
  InvalidInputShape.
\<close>

theorem one_field_raises_type_error:
  "length (intrinsicFields \<lparr>intrinsicFields = [countryField]\<rparr>) < 2 \<and>
   getVegaLiteSpec countryRenderer (DataArray \<lparr>intrinsicFields = [countryField]\<rparr> scenarioRows)
     = Inl TypeError \<and>
   \<not> typedFailure TypeError"
  by (simp add: assemble_def getColorField_def getRegionField_def typedFailure_def
      invalidFieldType_def invalidInputShape_def)

text \<open>
  Claim C8. A null cell never raises: \<open>getDataValue\<close> gives the absent value for it
  under every field. On a valid input with distinctly named fields each row is mapped,
  a null cell leaves its field absent in the mapped row, and the mapped row is in the
  output exactly when its region value is present: a row is dropped only for an
  absent region value. With France and Japan in the table and Atlantis not, the rows
  France/10, Atlantis/5, Japan/null give the rows country 250/value 10 and country
  392/value absent.
\<close>

theorem null_cells_become_absent:
  "getDataValue codes e f DataNull = Inr None \<and>
   (validInput e rows \<and> distinct (map name (intrinsicFields e)) \<longrightarrow>
      (\<exists>s rf. getVegaLiteSpec R (DataArray e rows) = Inr s \<and> getRegionField e = Some rf \<and>
         (\<forall>row\<in>set rows. \<exists>m. mapRow (COUNTRY_CODES R) e row = Inr m \<and>
            (\<forall>g\<in>set (intrinsicFields e). row (name g) = DataNull \<longrightarrow> m (name g) = None) \<and>
            (m \<in> set (data_values s)) = (m (name rf) \<noteq> None)))) \<and>
   (COUNTRY_CODES R' ''France'' = Some 250 \<and> COUNTRY_CODES R' ''Japan'' = Some 392 \<and>
    COUNTRY_CODES R' ''Atlantis'' = None \<longrightarrow>
      outputRows R' (DataArray countryExplore scenarioRows) =
        Inr [[''country'' \<mapsto> VNumber 250, ''value'' \<mapsto> VNumber 10],
             [''country'' \<mapsto> VNumber 392]])"
proof -
  have 1: "getDataValue codes e f DataNull = Inr None" by simp
  have 2: "\<exists>s rf. getVegaLiteSpec R (DataArray e rows) = Inr s \<and> getRegionField e = Some rf \<and>
         (\<forall>row\<in>set rows. \<exists>m. mapRow (COUNTRY_CODES R) e row = Inr m \<and>
            (\<forall>g\<in>set (intrinsicFields e). row (name g) = DataNull \<longrightarrow> m (name g) = None) \<and>
            (m \<in> set (data_values s)) = (m (name rf) \<noteq> None))"
    if v: "validInput e rows" and d: "distinct (map name (intrinsicFields e))"
  proof -
    from v obtain s where s: "getVegaLiteSpec R (DataArray e rows) = Inr s"
      using getVegaLiteSpec_valid by blast
    from v obtain rf where rf: "getRegionField e = Some rf" using valid_region by blast
    have "\<exists>m. mapRow (COUNTRY_CODES R) e row = Inr m \<and>
            (\<forall>g\<in>set (intrinsicFields e). row (name g) = DataNull \<longrightarrow> m (name g) = None) \<and>
            (m \<in> set (data_values s)) = (m (name rf) \<noteq> None)" if row: "row \<in> set rows" for row
    proof -
      from v row have "list_all (\<lambda>f. scalar (row (name f))) (intrinsicFields e)"
        by (auto simp: validInput_def list_all_iff split: list.splits)
      then obtain m where m: "mapRow (COUNTRY_CODES R) e row = Inr m"
        using mapRow_ok by blast
      have nulls: "m (name g) = None" if "g \<in> set (intrinsicFields e)" "row (name g) = DataNull" for g
        using mapRow_cell[OF m d that(1)] that(2) by simp
      have "(m \<in> set (data_values s)) = (m (name rf) \<noteq> None)"
      proof
        assume "m \<in> set (data_values s)"
        then show "m (name rf) \<noteq> None" by (rule output_region_present[OF s rf])
      next
        assume "m (name rf) \<noteq> None"
        with mapRow_region[OF m d rf] have "\<not> regionAbsent (COUNTRY_CODES R) e row" by simp
        from surviving_row[OF s d row this] m show "m \<in> set (data_values s)" by auto
      qed
      with m nulls show ?thesis by blast
    qed
    with s rf show ?thesis by blast
  qed
  have 3: "outputRows R' (DataArray countryExplore scenarioRows) =
        Inr [[''country'' \<mapsto> VNumber 250, ''value'' \<mapsto> VNumber 10],
             [''country'' \<mapsto> VNumber 392]]"
    if "COUNTRY_CODES R' ''France'' = Some 250" "COUNTRY_CODES R' ''Japan'' = Some 392"
      "COUNTRY_CODES R' ''Atlantis'' = None"
    using that
    by (simp add: outputRows_def assemble_def mapRow_def getColorField_def getRegionField_def
      getDataType_def isAtomicField_def isDate_def isTimestamp_def isStringField_def
      isNumberField_def countryExplore_def countryField_def valueField_def countryRow_def
      scenarioRows_def propertyRead_def objectPrototypeKeys_def)
  from 1 2 3 show ?thesis by blast
qed


theorem null_cells_become_absent_witness:
  "validInput countryExplore scenarioRows \<and>
   distinct (map name (intrinsicFields countryExplore)) \<and>
   COUNTRY_CODES countryRenderer ''France'' = Some 250 \<and>
   COUNTRY_CODES countryRenderer ''Japan'' = Some 392 \<and>
   COUNTRY_CODES countryRenderer ''Atlantis'' = None \<and>
   getDataValue countryCodes countryExplore valueField DataNull = Inr None \<and>
   outputRows countryRenderer (DataArray countryExplore scenarioRows) =
     Inr [[''country'' \<mapsto> VNumber 250, ''value'' \<mapsto> VNumber 10],
          [''country'' \<mapsto> VNumber 392]] \<and>
   (\<exists>s m. getVegaLiteSpec countryRenderer (DataArray countryExplore scenarioRows) = Inr s \<and>
      mapRow (COUNTRY_CODES countryRenderer) countryExplore (countryRow (DataString ''Japan'') DataNull)
        = Inr m \<and>
      m (name valueField) = None \<and> m (name countryField) = Some (VNumber 392) \<and>
      m \<in> set (data_values s))"
proof -
  let ?japan = "countryRow (DataString ''Japan'') DataNull"
  note th = null_cells_become_absent[of countryCodes countryExplore valueField scenarioRows
      countryRenderer countryRenderer]
  have c1: "COUNTRY_CODES countryRenderer ''France'' = Some 250"
    and c2: "COUNTRY_CODES countryRenderer ''Japan'' = Some 392"
    and c3: "COUNTRY_CODES countryRenderer ''Atlantis'' = None"
    by (simp_all add: countryRenderer_def countryCodes_def)
  from th have a: "getDataValue countryCodes countryExplore valueField DataNull = Inr None"
    by blast
  from th c1 c2 c3 have b: "outputRows countryRenderer (DataArray countryExplore scenarioRows) =
     Inr [[''country'' \<mapsto> VNumber 250, ''value'' \<mapsto> VNumber 10],
          [''country'' \<mapsto> VNumber 392]]"
    by blast
  from th scenario_valid scenario_distinct obtain s rf where
    s: "getVegaLiteSpec countryRenderer (DataArray countryExplore scenarioRows) = Inr s"
    and rf: "getRegionField countryExplore = Some rf"
    and all: "\<forall>row\<in>set scenarioRows.
        \<exists>m. mapRow (COUNTRY_CODES countryRenderer) countryExplore row = Inr m \<and>
          (\<forall>g\<in>set (intrinsicFields countryExplore). row (name g) = DataNull \<longrightarrow> m (name g) = None) \<and>
          (m \<in> set (data_values s)) = (m (name rf) \<noteq> None)"
    by blast
  have "?japan \<in> set scenarioRows" by (simp add: scenarioRows_def)
  with all obtain m where
    m: "mapRow (COUNTRY_CODES countryRenderer) countryExplore ?japan = Inr m"
    and nulls: "\<forall>g\<in>set (intrinsicFields countryExplore). ?japan (name g) = DataNull \<longrightarrow> m (name g) = None"
    and mem: "(m \<in> set (data_values s)) = (m (name rf) \<noteq> None)"
    by blast
  have "valueField \<in> set (intrinsicFields countryExplore)" "?japan (name valueField) = DataNull"
    by (simp_all add: country_defs)
  with nulls have v: "m (name valueField) = None" by blast
  have "mapRow (COUNTRY_CODES countryRenderer) countryExplore ?japan = Inr [''country'' \<mapsto> VNumber 392]"
    by (simp add: mapRow_def getRegionField_def country_defs)
  with m have r: "m (name countryField) = Some (VNumber 392)"
    by (auto simp: countryField_def)
  from rf have "rf = countryField" by (simp add: scenario_region)
  with mem r have "m \<in> set (data_values s)" by simp
  with scenario_valid scenario_distinct c1 c2 c3 a b s m v r show ?thesis by blast
qed

text \<open>
  Claim C10. A number cell passes through \<open>getDataValue\<close> unchanged under every
  field and whatever the table. On a valid input with distinctly named fields a row
  whose region cell is a number is in the output with that number as its region
  value, whatever the world geometry holds. Only a string cell under the region field
  reads the table: for every other cell or field the value is the same with any two
  tables.
\<close>

theorem numeric_region_passes_through:
  "getDataValue codes e f (DataNumber n) = Inr (Some (VNumber n)) \<and>
   (\<not> isString c \<or> Some f \<noteq> getRegionField e \<longrightarrow>
      getDataValue codes e f c = getDataValue codes' e f c) \<and>
   (validInput e rows \<and> distinct (map name (intrinsicFields e)) \<and> row \<in> set rows \<and>
    getRegionField e = Some rf \<and> row (name rf) = DataNumber n \<longrightarrow>
      (\<exists>s. getVegaLiteSpec R (DataArray e rows) = Inr s \<and>
         (\<exists>m\<in>set (data_values s). mapRow (COUNTRY_CODES R) e row = Inr m \<and>
            m (name rf) = Some (VNumber n))))"
proof -
  have 1: "getDataValue codes e f (DataNumber n) = Inr (Some (VNumber n))" by simp
  have 2: "\<not> isString c \<or> Some f \<noteq> getRegionField e \<longrightarrow>
      getDataValue codes e f c = getDataValue codes' e f c"
    by (cases c) auto
  have 3: "\<exists>s. getVegaLiteSpec R (DataArray e rows) = Inr s \<and>
         (\<exists>m\<in>set (data_values s). mapRow (COUNTRY_CODES R) e row = Inr m \<and>
            m (name rf) = Some (VNumber n))"
    if v: "validInput e rows" and d: "distinct (map name (intrinsicFields e))"
      and row: "row \<in> set rows" and rf: "getRegionField e = Some rf"
      and cell: "row (name rf) = DataNumber n"
  proof -
    from v obtain s where s: "getVegaLiteSpec R (DataArray e rows) = Inr s"
      using getVegaLiteSpec_valid by blast
    from rf cell have "\<not> regionAbsent (COUNTRY_CODES R) e row"
      by (simp add: regionAbsent_def regionCell_def)
    from surviving_row[OF s d row this] obtain m where
      m: "m \<in> set (data_values s)" "mapRow (COUNTRY_CODES R) e row = Inr m" by blast
    from mapRow_cell[OF m(2) d region_mem[OF rf]] cell
    have "m (name rf) = Some (VNumber n)" by simp
    with s m show ?thesis by blast
  qed
  from 1 2 3 show ?thesis by blast
qed

theorem numeric_region_passes_through_witness:
  "validInput countryExplore [countryRow (DataNumber 999) (DataNumber 7)] \<and>
   distinct (map name (intrinsicFields countryExplore)) \<and>
   getRegionField countryExplore = Some countryField \<and>
   countryRow (DataNumber 999) (DataNumber 7) (name countryField) = DataNumber 999 \<and>
   \<not> isString (DataNumber 999 :: int DataColumn) \<and>
   getDataValue countryCodes countryExplore countryField (DataNumber 999)
     = Inr (Some (VNumber 999)) \<and>
   getDataValue countryCodes countryExplore countryField (DataNumber 999)
     = getDataValue Map.empty countryExplore countryField (DataNumber 999) \<and>
   (\<exists>s. getVegaLiteSpec countryRenderer
          (DataArray countryExplore [countryRow (DataNumber 999) (DataNumber 7)]) = Inr s \<and>
      (\<exists>m\<in>set (data_values s).
         mapRow (COUNTRY_CODES countryRenderer) countryExplore
           (countryRow (DataNumber 999) (DataNumber 7)) = Inr m \<and>
         m (name countryField) = Some (VNumber 999)))"
proof -
  let ?row = "countryRow (DataNumber 999) (DataNumber 7)"
  have v: "validInput countryExplore [?row]"
    by (simp add: validInput_def classifiable_def scalar_def country_defs)
  have cell: "?row (name countryField) = DataNumber 999"
    by (simp add: countryRow_def countryField_def)
  have ns: "\<not> isString (DataNumber 999 :: int DataColumn)" by simp
  have mem: "?row \<in> set [?row]" by simp
  from numeric_region_passes_through[of countryCodes countryExplore countryField 999
      "DataNumber 999" Map.empty "[?row]" ?row countryField countryRenderer]
    v scenario_distinct scenario_region cell ns mem
  show ?thesis by blast
qed

end
